theory Spec2Isabelle
  imports Main
begin

text \<open>
  A shallow embedding of \<^verbatim>\<open>add_deps.py\<close>, which converts every file of a source
  directory into a \<^verbatim>\<open>.cupt\<close> file of a destination directory by running a
  natural-language pipeline on its text and serialising the words of every sentence.

  The functions of the program are translated one by one: loops are folds over the
  list they run through, \<^verbatim>\<open>try\<close>/\<^verbatim>\<open>except\<close> is a case distinction on a sum
  whose left side is the exception, the file system is a map from paths to files, and
  the log is the list of the records that reach \<^verbatim>\<open>parser.log\<close>. What the program
  takes from outside is a parameter: the pipeline, the directory listing and the faults
  of the operating system on reading and on opening for writing.
\<close>

section \<open>Data model\<close>

text \<open>
  The pipeline hands back a document of sentences of words. A word carries the eight
  attributes that \<^verbatim>\<open>tag_files\<close> reads. The attributes \<^verbatim>\<open>text\<close> and
  \<^verbatim>\<open>lemma\<close> are called \<open>wtext\<close> and \<open>wlemma\<close> here, since both names are
  reserved words of the theory language. An attribute that may be \<^verbatim>\<open>None\<close> in
  Python is an \<open>option\<close>.
\<close>

record word =
  index :: int
  wtext :: string
  wlemma :: "string option"
  upos :: "string option"
  xpos :: "string option"
  feats :: "string option"
  governor :: "int option"
  dependency_relation :: "string option"

record sentence =
  words :: "word list"

record document =
  sentences :: "sentence list"

section \<open>Python values and string helpers\<close>

text \<open>
  \<^verbatim>\<open>word_props\<close> is a list holding integers and strings side by side, which
  \<^verbatim>\<open>str\<close> turns into strings before they are joined.
\<close>

datatype pyval = PInt int | PStr string

definition digit_char :: "nat \<Rightarrow> char" where
  "digit_char d = ''0123456789'' ! d"

fun digits :: "nat \<Rightarrow> string" where
  "digits n = (if n < 10 then [digit_char n] else digits (n div 10) @ [digit_char (n mod 10)])"

declare digits.simps [simp del]

definition str_int :: "int \<Rightarrow> string" where
  "str_int i = (if i < 0 then CHR ''-'' # digits (nat (- i)) else digits (nat i))"

fun str :: "pyval \<Rightarrow> string" where
  "str (PInt i) = str_int i"
| "str (PStr s) = s"

text \<open>\<^verbatim>\<open>sep.join(xs)\<close>\<close>

fun join :: "string \<Rightarrow> string list \<Rightarrow> string" where
  "join sep [] = []"
| "join sep [x] = x"
| "join sep (x # y # ys) = x @ sep @ join sep (y # ys)"

text \<open>Truthiness of the values the program tests with \<^verbatim>\<open>x if x else ""\<close>.\<close>

definition truthy_str :: "string option \<Rightarrow> bool" where
  "truthy_str x = (case x of None \<Rightarrow> False | Some s \<Rightarrow> s \<noteq> [])"

definition truthy_int :: "int option \<Rightarrow> bool" where
  "truthy_int x = (case x of None \<Rightarrow> False | Some i \<Rightarrow> i \<noteq> 0)"

definition truthy_list :: "'a list option \<Rightarrow> bool" where
  "truthy_list x = (case x of None \<Rightarrow> False | Some xs \<Rightarrow> xs \<noteq> [])"

section \<open>Sentence reconstruction\<close>

text \<open>
  One iteration of the loop of \<^verbatim>\<open>get_original_sentence\<close> over
  \<^verbatim>\<open>enumerate(words)\<close>: \<open>ws\<close> is the whole list, \<open>acc\<close> the string built so far.
  The read \<open>ws ! (i + 1)\<close> happens only under the guard \<open>i < len(words) - 1\<close>,
  where it is in range.
\<close>

definition original_sentence_step :: "word list \<Rightarrow> string \<Rightarrow> nat \<times> word \<Rightarrow> string" where
  "original_sentence_step ws acc iw =
     (case iw of (i, w) \<Rightarrow>
        if int i < int (length ws) - 1 then
          (if upos (ws ! (i + 1)) = Some ''PUNCT'' then acc @ wtext w
           else acc @ wtext w @ '' '')
        else acc @ wtext w)"

definition get_original_sentence :: "sentence \<Rightarrow> string" where
  "get_original_sentence s =
     foldl (original_sentence_step (words s)) [] (enumerate 0 (words s))"

text \<open>
  The reconstruction rule as the specification words it: every word's text, a single
  space after a word unless the next word is tagged \<open>PUNCT\<close>, nothing after the last.
\<close>

fun reconstruction_rule :: "word list \<Rightarrow> string" where
  "reconstruction_rule [] = []"
| "reconstruction_rule [w] = wtext w"
| "reconstruction_rule (w # v # ws) =
     wtext w @ (if upos v = Some ''PUNCT'' then [] else '' '') @ reconstruction_rule (v # ws)"

definition tagged :: "string \<Rightarrow> string \<Rightarrow> word" where
  "tagged t p = \<lparr>index = 0, wtext = t, wlemma = None, upos = Some p, xpos = None,
                 feats = None, governor = None, dependency_relation = None\<rparr>"

definition hello_world :: sentence where
  "hello_world = \<lparr>words = [tagged ''Hello'' ''INTJ'', tagged '','' ''PUNCT'',
                             tagged ''world'' ''NOUN'', tagged ''!'' ''PUNCT'']\<rparr>"

section \<open>Serialising the words of a sentence\<close>

text \<open>\<^verbatim>\<open>x if x else ""\<close>, for a textual attribute and for the governor.\<close>

definition or_empty :: "string option \<Rightarrow> pyval" where
  "or_empty x = (if truthy_str x then (case x of Some s \<Rightarrow> PStr s | None \<Rightarrow> PStr []) else PStr [])"

definition governor_or_empty :: "int option \<Rightarrow> pyval" where
  "governor_or_empty x =
     (if truthy_int x then (case x of Some g \<Rightarrow> PInt g | None \<Rightarrow> PStr []) else PStr [])"

text \<open>The eleven appends to \<^verbatim>\<open>word_props\<close>, which is empty when a word is entered.\<close>

definition word_props :: "word \<Rightarrow> pyval list" where
  "word_props w =
     [PInt (index w),
      PStr (wtext w),
      or_empty (wlemma w),
      or_empty (upos w),
      or_empty (xpos w),
      or_empty (feats w),
      governor_or_empty (governor w),
      or_empty (dependency_relation w),
      PStr ''_'',
      PStr ''_'',
      PStr ''_'']"

definition tab :: char where
  "tab = CHR 0x09"

definition newline :: char where
  "newline = CHR 0x0A"

definition word_line :: "word \<Rightarrow> string" where
  "word_line w = join [tab] (map str (word_props w))"

text \<open>
  The body of the loop over the words: the joined line is appended, then the empty
  string (lines 134 and 136, both inside the loop over the words).
\<close>

definition word_step :: "string list \<Rightarrow> word \<Rightarrow> string list" where
  "word_step cupt_content w = (cupt_content @ [word_line w]) @ [[]]"

definition source_sent_id :: "string \<Rightarrow> string" where
  "source_sent_id path_to_file = ''# source_sent_id = . . '' @ path_to_file"

definition text_comment :: "sentence \<Rightarrow> string" where
  "text_comment s = ''# text = '' @ get_original_sentence s"

definition sentence_step :: "string \<Rightarrow> string list \<Rightarrow> sentence \<Rightarrow> string list" where
  "sentence_step path_to_file cupt_content s =
     foldl word_step ((cupt_content @ [source_sent_id path_to_file]) @ [text_comment s]) (words s)"

definition global_columns :: string where
  "global_columns =
     ''# global.columns = ID FORM LEMMA UPOS XPOS FEATS HEAD DEPREL DEPS MISC PARSEME:MWE''"

definition cupt_content :: "string \<Rightarrow> document \<Rightarrow> string list" where
  "cupt_content path_to_file doc = foldl (sentence_step path_to_file) [global_columns] (sentences doc)"

text \<open>What the loop \<^verbatim>\<open>cupt.write(line + "\n")\<close> leaves in the file.\<close>

definition file_text :: "string list \<Rightarrow> string" where
  "file_text ls = foldl (\<lambda>written line. written @ (line @ [newline])) [] ls"

text \<open>
  The fields a reader of the file gets from a line by splitting it at a separator
  character (Python's \<^verbatim>\<open>line.split(sep)\<close>); used to state what a line holds.
\<close>

fun split_on :: "char \<Rightarrow> string \<Rightarrow> string list" where
  "split_on c [] = [[]]"
| "split_on c (x # xs) =
     (if x = c then [] # split_on c xs
      else (case split_on c xs of [] \<Rightarrow> [[x]] | y # ys \<Rightarrow> (x # y) # ys))"



section \<open>Paths\<close>

text \<open>
  \<^verbatim>\<open>os.path.join\<close> with two components, \<^verbatim>\<open>os.path.split\<close> and
  \<^verbatim>\<open>os.path.splitext\<close> of the POSIX path module. \<^verbatim>\<open>splitext\<close> cuts at the
  last dot of the last component, unless only dots stand before it in that component.
\<close>

definition sep :: char where
  "sep = CHR ''/''"

definition extsep :: char where
  "extsep = CHR ''.''"

definition path_join :: "string \<Rightarrow> string \<Rightarrow> string" where
  "path_join a b =
     (if b \<noteq> [] \<and> hd b = sep then b
      else if a = [] \<or> last a = sep then a @ b
      else a @ [sep] @ b)"

definition rstrip :: "char \<Rightarrow> string \<Rightarrow> string" where
  "rstrip c s = rev (dropWhile (\<lambda>x. x = c) (rev s))"

definition path_split :: "string \<Rightarrow> string \<times> string" where
  "path_split p =
     (let tail = rev (takeWhile (\<lambda>x. x \<noteq> sep) (rev p));
          head = take (length p - length tail) p
      in (if head \<noteq> [] \<and> list_ex (\<lambda>x. x \<noteq> sep) head then rstrip sep head else head, tail))"

definition splitext :: "string \<Rightarrow> string \<times> string" where
  "splitext p =
     (let tail = rev (takeWhile (\<lambda>x. x \<noteq> sep) (rev p));
          ext = rev (takeWhile (\<lambda>x. x \<noteq> extsep) (rev tail));
          dotIndex = length p - length ext - 1
      in if extsep \<in> set tail
            \<and> list_ex (\<lambda>x. x \<noteq> extsep) (take (length tail - length ext - 1) tail)
         then (take dotIndex p, drop dotIndex p)
         else (p, []))"

section \<open>File system, log and environment\<close>

datatype node = File string | Dir

type_synonym filesystem = "string \<rightharpoonup> node"

text \<open>
  An exception carries the text that \<^verbatim>\<open>str(e)\<close> gives. The operating system's
  errors show the path as \<^verbatim>\<open>repr\<close> prints it, which for a path without quotes,
  backslashes or control characters is the path between single quotes.
\<close>

datatype exn = FileNotFoundError string | IsADirectoryError string | Failure string

definition quoted :: "string \<Rightarrow> string" where
  "quoted p = [CHR 0x27] @ p @ [CHR 0x27]"

fun str_exn :: "exn \<Rightarrow> string" where
  "str_exn (FileNotFoundError m) = m"
| "str_exn (IsADirectoryError m) = m"
| "str_exn (Failure m) = m"

text \<open>
  \<^verbatim>\<open>logging.basicConfig\<close> (lines 13 to 17) names the file, the mode and the format,
  and no level: the root logger keeps its default level \<^verbatim>\<open>WARNING\<close>, and a
  record below that level is dropped before it reaches the file.
\<close>

datatype level = DEBUG | INFO | WARNING | ERROR | CRITICAL

fun level_no :: "level \<Rightarrow> nat" where
  "level_no DEBUG = 10"
| "level_no INFO = 20"
| "level_no WARNING = 30"
| "level_no ERROR = 40"
| "level_no CRITICAL = 50"

definition root_level :: level where
  "root_level = WARNING"

record state =
  fs :: filesystem
  parser_log :: "(level \<times> string) list"

definition log_record :: "level \<Rightarrow> string \<Rightarrow> state \<Rightarrow> state" where
  "log_record lv msg st =
     (if level_no root_level \<le> level_no lv then st\<lparr>parser_log := parser_log st @ [(lv, msg)]\<rparr>
      else st)"

definition logging_info :: "string \<Rightarrow> state \<Rightarrow> state" where
  "logging_info = log_record INFO"

definition logging_error :: "string \<Rightarrow> state \<Rightarrow> state" where
  "logging_error = log_record ERROR"

text \<open>
  What the operating system decides: the directory listing, a fault on reading a
  regular file (permissions, undecodable bytes) and a fault on opening a file for
  writing (missing directory, permissions). The pipeline is a function from the text
  to a document that may raise.
\<close>

record os_env =
  listdir :: "filesystem \<Rightarrow> string \<Rightarrow> exn + string list"
  read_fault :: "string \<Rightarrow> exn option"
  write_fault :: "string \<Rightarrow> exn option"

type_synonym pipeline = "string \<Rightarrow> exn + document"

definition path_exists :: "filesystem \<Rightarrow> string \<Rightarrow> bool" where
  "path_exists f p = (f p \<noteq> None)"

text \<open>\<^verbatim>\<open>open(path).read()\<close>\<close>

definition read_text :: "os_env \<Rightarrow> filesystem \<Rightarrow> string \<Rightarrow> exn + string" where
  "read_text ev f p =
     (case f p of
        None \<Rightarrow> Inl (FileNotFoundError (''[Errno 2] No such file or directory: '' @ quoted p))
      | Some Dir \<Rightarrow> Inl (IsADirectoryError (''[Errno 21] Is a directory: '' @ quoted p))
      | Some (File content) \<Rightarrow>
          (case read_fault ev p of Some e \<Rightarrow> Inl e | None \<Rightarrow> Inr content))"

text \<open>
  \<^verbatim>\<open>open(out_file, "w")\<close> followed by the writes of all lines. Opening may fail;
  the writes after a successful open are taken to complete.
\<close>

definition write_lines :: "os_env \<Rightarrow> string \<Rightarrow> string list \<Rightarrow> filesystem \<Rightarrow> exn + filesystem" where
  "write_lines ev p ls f =
     (case write_fault ev p of
        Some e \<Rightarrow> Inl e
      | None \<Rightarrow>
          (case f p of
             Some Dir \<Rightarrow> Inl (IsADirectoryError (''[Errno 21] Is a directory: '' @ quoted p))
           | _ \<Rightarrow> Inr (f(p \<mapsto> File (file_text ls)))))"

section \<open>The batch converter\<close>

text \<open>
  The statements of the \<^verbatim>\<open>try\<close> block up to the end of the \<^verbatim>\<open>with\<close>: read,
  run the pipeline, assemble all lines, then open and write. An exception leaves the
  file system as it was.
\<close>

definition convert :: "os_env \<Rightarrow> pipeline \<Rightarrow> string \<Rightarrow> string \<Rightarrow> filesystem \<Rightarrow> exn + filesystem" where
  "convert ev nlp path_to_file out_file f =
     (case read_text ev f path_to_file of
        Inl e \<Rightarrow> Inl e
      | Inr file_content \<Rightarrow>
          (case nlp file_content of
             Inl e \<Rightarrow> Inl e
           | Inr doc \<Rightarrow> write_lines ev out_file (cupt_content path_to_file doc) f))"

definition filename_of :: "string \<Rightarrow> string" where
  "filename_of path_to_file = fst (splitext (snd (path_split path_to_file)))"

definition out_file_of :: "string \<Rightarrow> string \<Rightarrow> string" where
  "out_file_of destination path_to_file =
     path_join destination (filename_of path_to_file @ ''.cupt'')"

text \<open>The body of the loop over the files.\<close>

definition process_file :: "os_env \<Rightarrow> pipeline \<Rightarrow> string \<Rightarrow> state \<Rightarrow> string \<Rightarrow> state" where
  "process_file ev nlp destination st path_to_file =
     (let filename = filename_of path_to_file;
          out_file = out_file_of destination path_to_file
      in if path_exists (fs st) out_file then
           logging_info (''File '' @ filename @ '' already exists.'') st
         else
           (case convert ev nlp path_to_file out_file (fs st) of
              Inr f' \<Rightarrow>
                logging_info (''Processed '' @ filename @ '', content writen to '' @ out_file @ ''.'')
                  (st\<lparr>fs := f'\<rparr>)
            | Inl e \<Rightarrow>
                logging_error (''Error '' @ str_exn e @ '' occured while processing '' @ filename @ ''.'')
                  st))"

text \<open>
  \<^verbatim>\<open>tag_files\<close>: the listing is taken once, outside any \<^verbatim>\<open>try\<close>, so its
  exception ends the run.
\<close>

definition tag_files :: "os_env \<Rightarrow> string \<Rightarrow> string \<Rightarrow> pipeline \<Rightarrow> state \<Rightarrow> exn + state" where
  "tag_files ev source destination nlp st =
     (case listdir ev (fs st) source of
        Inl e \<Rightarrow> Inl e
      | Inr names \<Rightarrow>
          Inr (foldl (process_file ev nlp destination) st (map (path_join source) names)))"

section \<open>The command line\<close>

record args =
  source :: string
  dest :: string
  lang :: string
  processors :: "string list option"
  batch :: "int option"

definition PROCESSORS :: string where
  "PROCESSORS = ''tokenize,mwt,pos,lemma,depparse''"

text \<open>Lines 151 and 152: \<^verbatim>\<open>tokenize\<close> is appended to a list that is given and not empty.\<close>

definition check_tokenize :: "string list option \<Rightarrow> string list option" where
  "check_tokenize ps =
     (if truthy_list ps \<and> (case ps of Some l \<Rightarrow> ''tokenize'' \<notin> set l | None \<Rightarrow> False)
      then (case ps of Some l \<Rightarrow> Some (l @ [''tokenize'']) | None \<Rightarrow> None)
      else ps)"

definition processors_args :: "string list option \<Rightarrow> string" where
  "processors_args ps =
     (let ps' = check_tokenize ps
      in if truthy_list ps' then (case ps' of Some l \<Rightarrow> join '','' l | None \<Rightarrow> PROCESSORS)
         else PROCESSORS)"

definition pos_batch_size_arg :: "int option \<Rightarrow> int" where
  "pos_batch_size_arg b =
     (if truthy_int b then (case b of Some n \<Rightarrow> n | None \<Rightarrow> 1000) else 1000)"

text \<open>
  \<^verbatim>\<open>prepare_library\<close> hands its three arguments to the pipeline's constructor,
  which is a parameter here and may raise.
\<close>

type_synonym pipeline_constructor = "string \<Rightarrow> string \<Rightarrow> int \<Rightarrow> exn + pipeline"

definition prepare_library ::
  "pipeline_constructor \<Rightarrow> string \<Rightarrow> string \<Rightarrow> int \<Rightarrow> exn + pipeline" where
  "prepare_library Pipeline lng procs pos_batch_size = Pipeline lng procs pos_batch_size"

definition main :: "os_env \<Rightarrow> pipeline_constructor \<Rightarrow> args \<Rightarrow> state \<Rightarrow> exn + state" where
  "main ev Pipeline a st =
     (case prepare_library Pipeline (lang a) (processors_args (processors a))
             (pos_batch_size_arg (batch a)) of
        Inl e \<Rightarrow> Inl e
      | Inr nlp \<Rightarrow> tag_files ev (source a) (dest a) nlp st)"

section \<open>Concrete environments\<close>

text \<open>
  Inputs on which the definitions are evaluated: a directory listing that reports,
  among given candidate names, those present in the directory; an operating system
  without read or write faults; a pipeline that returns one sentence of one word, whose
  text is the file's content; a state with given files and an empty log; and
  predicates that say when a file can be read and analysed.
\<close>

definition listing_of :: "string list \<Rightarrow> filesystem \<Rightarrow> string \<Rightarrow> exn + string list" where
  "listing_of candidates f d = Inr (filter (\<lambda>n. path_exists f (path_join d n)) candidates)"

definition plain_env :: "string list \<Rightarrow> os_env" where
  "plain_env candidates =
     \<lparr>listdir = listing_of candidates, read_fault = (\<lambda>p. None), write_fault = (\<lambda>p. None)\<rparr>"



definition empty_state :: state where
  "empty_state = \<lparr>fs = Map.empty, parser_log = []\<rparr>"

definition state_of :: "(string \<times> node) list \<Rightarrow> state" where
  "state_of entries = \<lparr>fs = map_of entries, parser_log = []\<rparr>"









definition dots :: state where
  "dots = state_of [(''d/...'', File ''x'')]"






section \<open>Properties of sentence reconstruction\<close>

lemma original_sentence_loop:
  "foldl (original_sentence_step (ps @ ws)) acc (enumerate (length ps) ws)
     = acc @ reconstruction_rule ws"
proof (induction ws arbitrary: ps acc rule: reconstruction_rule.induct)
  case 1
  show ?case by simp
next
  case (2 w)
  show ?case by (simp add: original_sentence_step_def)
next
  case (3 w v ws)
  have step: "original_sentence_step (ps @ w # v # ws) acc (length ps, w)
                = acc @ wtext w @ (if upos v = Some ''PUNCT'' then [] else '' '')"
    by (simp add: original_sentence_step_def nth_append)
  have "foldl (original_sentence_step (ps @ w # v # ws)) acc
          (enumerate (length ps) (w # v # ws))
        = foldl (original_sentence_step ((ps @ [w]) @ v # ws))
            (acc @ wtext w @ (if upos v = Some ''PUNCT'' then [] else '' ''))
            (enumerate (length (ps @ [w])) (v # ws))"
    using step by simp
  also have "\<dots> = (acc @ wtext w @ (if upos v = Some ''PUNCT'' then [] else '' ''))
                    @ reconstruction_rule (v # ws)"
    by (rule "3.IH")
  finally show ?case by simp
qed

text \<open>
  C1. For every sentence the reconstructed string is the concatenation of the words'
  texts with a single space after a word unless the following word is tagged
  \<open>PUNCT\<close> and with nothing after the last word; for the sentence Hello/INTJ, ,/PUNCT,
  world/NOUN, !/PUNCT the result is \<open>Hello, world!\<close>.
\<close>

theorem get_original_sentence_rule:
  "get_original_sentence s = reconstruction_rule (words s)
   \<and> get_original_sentence hello_world = ''Hello, world!''"
proof -
  have general: "get_original_sentence t = reconstruction_rule (words t)" for t
    using original_sentence_loop [of "[]" "words t" "[]"]
    by (simp add: get_original_sentence_def)
  have "reconstruction_rule (words hello_world) = ''Hello, world!''"
    by (simp add: hello_world_def tagged_def)
  with general show ?thesis by simp
qed

section \<open>Properties of the serialised lines\<close>

lemma split_on_nonempty: "split_on c s \<noteq> []"
  by (induction s) (auto split: list.splits)


lemma split_on_append_sep: "split_on c (a @ c # b) = split_on c a @ split_on c b"
proof (induction a)
  case Nil
  show ?case by simp
next
  case (Cons x a)
  show ?case
  proof (cases "x = c")
    case True
    with Cons show ?thesis by simp
  next
    case False
    obtain y ys where "split_on c a = y # ys"
      using split_on_nonempty [of c a] by (cases "split_on c a") auto
    with False Cons show ?thesis by simp
  qed
qed

lemma split_on_join:
  "xs \<noteq> [] \<Longrightarrow> split_on c (join [c] xs) = concat (map (split_on c) xs)"
proof (induction "[c]" xs rule: join.induct)
  case 1
  then show ?case by simp
next
  case (2 x)
  show ?case by simp
next
  case (3 x y ys)
  then show ?case by (simp add: split_on_append_sep)
qed





lemma underscore_fields: "split_on tab ''_'' = [''_'']"
  by (simp add: tab_def)








text \<open>
  C4. Each of lemma, upos, xpos, feats and dependency relation is emitted as the empty
  string when it is absent or empty, and the HEAD value is the empty string when the
  governor is absent or 0. The positions are those of the eleven values that
  \<open>word_line\<close> joins with tabs.
\<close>

theorem field_defaulting:
  "(wlemma w = None \<or> wlemma w = Some [] \<longrightarrow> map str (word_props w) ! 2 = [])
   \<and> (upos w = None \<or> upos w = Some [] \<longrightarrow> map str (word_props w) ! 3 = [])
   \<and> (xpos w = None \<or> xpos w = Some [] \<longrightarrow> map str (word_props w) ! 4 = [])
   \<and> (feats w = None \<or> feats w = Some [] \<longrightarrow> map str (word_props w) ! 5 = [])
   \<and> (governor w = None \<or> governor w = Some 0 \<longrightarrow> map str (word_props w) ! 6 = [])
   \<and> (dependency_relation w = None \<or> dependency_relation w = Some []
        \<longrightarrow> map str (word_props w) ! 7 = [])
   \<and> word_line w = join [tab] (map str (word_props w))"
  by (auto simp: word_props_def word_line_def or_empty_def governor_or_empty_def truthy_str_def
        truthy_int_def)

theorem field_defaulting_witness:
  "map str (word_props \<lparr>index = 1, wtext = ''Ana'', wlemma = None, upos = Some [], xpos = None,
       feats = Some [], governor = Some 0, dependency_relation = None\<rparr>)
     = [''1'', ''Ana'', [], [], [], [], [], [], ''_'', ''_'', ''_'']
   \<and> map str (word_props \<lparr>index = 1, wtext = ''Ana'', wlemma = None, upos = Some [], xpos = None,
       feats = Some [], governor = None, dependency_relation = None\<rparr>) ! 6 = []"
proof -
  let ?w = "\<lparr>index = 1, wtext = ''Ana'', wlemma = None, upos = Some [], xpos = None,
       feats = Some [], governor = Some 0, dependency_relation = None\<rparr>"
  let ?v = "\<lparr>index = 1, wtext = ''Ana'', wlemma = None, upos = Some [], xpos = None,
       feats = Some [], governor = None, dependency_relation = None\<rparr>"
  have shape: "map str (word_props ?w)
      = [str_int 1, ''Ana'', map str (word_props ?w) ! 2, map str (word_props ?w) ! 3,
         map str (word_props ?w) ! 4, map str (word_props ?w) ! 5, map str (word_props ?w) ! 6,
         map str (word_props ?w) ! 7, ''_'', ''_'', ''_'']"
    by (simp add: word_props_def)
  have one: "str_int 1 = ''1''"
    by (simp add: str_int_def digits.simps digit_char_def)
  show ?thesis
    using field_defaulting [of ?w] field_defaulting [of ?v] shape one by simp
qed















text \<open>
  C3. The empty line is appended inside the loop over the words: a sentence of two
  words gives its two comment lines, then the first word's line, an empty line, the
  second word's line and an empty line. An empty line therefore stands between two
  word lines of one sentence.
\<close>

theorem blank_line_after_every_word:
  "sentence_step p acc \<lparr>words = [w, v]\<rparr>
     = acc @ [source_sent_id p, text_comment \<lparr>words = [w, v]\<rparr>, word_line w, [], word_line v, []]
   \<and> cupt_content ''in/a.txt'' \<lparr>sentences = [\<lparr>words = [tagged ''a'' ''X'', tagged ''b'' ''Y'']\<rparr>]\<rparr>
     = [global_columns, ''# source_sent_id = . . in/a.txt'', ''# text = a b'',
        word_line (tagged ''a'' ''X''), [], word_line (tagged ''b'' ''Y''), []]"
proof -
  have "get_original_sentence \<lparr>words = [tagged ''a'' ''X'', tagged ''b'' ''Y'']\<rparr> = ''a b''"
    by (simp add: get_original_sentence_def original_sentence_step_def tagged_def)
  then show ?thesis
    by (simp add: cupt_content_def sentence_step_def word_step_def source_sent_id_def
          text_comment_def)
qed

section \<open>Properties of the command line\<close>

lemma tokenize_field: "split_on CHR '','' ''tokenize'' = [''tokenize'']"
  by simp

lemma tokenize_in_joined:
  assumes "''tokenize'' \<in> set l"
  shows "''tokenize'' \<in> set (split_on CHR '','' (join '','' l))"
proof -
  from assms have "l \<noteq> []" by auto
  then have "split_on CHR '','' (join '','' l) = concat (map (split_on CHR '','') l)"
    by (rule split_on_join)
  moreover have "''tokenize'' \<in> set (concat (map (split_on CHR '','') l))"
    using assms by (auto intro!: bexI [where x = "''tokenize''"])
  ultimately show ?thesis by simp
qed

lemma processors_args_Some:
  "ps \<noteq> [] \<Longrightarrow>
   processors_args (Some ps)
     = join '','' (if ''tokenize'' \<in> set ps then ps else ps @ [''tokenize''])"
  by (simp add: processors_args_def check_tokenize_def truthy_list_def)

lemma processors_args_default:
  "processors_args None = PROCESSORS" "processors_args (Some []) = PROCESSORS"
  by (simp_all add: processors_args_def check_tokenize_def truthy_list_def)

text \<open>
  C8, as amended. When a non-empty list of stage names is given and \<open>tokenize\<close> is
  not among them, \<open>tokenize\<close> is appended; when it is among them the list is used as
  given; when the option is omitted or given with no stage names the default chain
  \<open>tokenize,mwt,pos,lemma,depparse\<close> is used. In every case \<open>tokenize\<close> is one
  of the comma-separated stages of the result.
\<close>

theorem processors_normalization:
  "(ps \<noteq> [] \<and> ''tokenize'' \<notin> set ps \<longrightarrow>
      processors_args (Some ps) = join '','' (ps @ [''tokenize'']))
   \<and> (''tokenize'' \<in> set ps \<longrightarrow> processors_args (Some ps) = join '','' ps)
   \<and> processors_args (Some []) = PROCESSORS
   \<and> processors_args None = PROCESSORS
   \<and> PROCESSORS = ''tokenize,mwt,pos,lemma,depparse''
   \<and> ''tokenize'' \<in> set (split_on CHR '','' (processors_args q))"
proof -
  have a: "ps \<noteq> [] \<and> ''tokenize'' \<notin> set ps \<longrightarrow>
      processors_args (Some ps) = join '','' (ps @ [''tokenize''])"
    by (simp add: processors_args_Some)
  have b: "''tokenize'' \<in> set ps \<longrightarrow> processors_args (Some ps) = join '','' ps"
  proof
    assume "''tokenize'' \<in> set ps"
    moreover from this have "ps \<noteq> []" by auto
    ultimately show "processors_args (Some ps) = join '','' ps"
      by (simp add: processors_args_Some)
  qed
  have dflt: "''tokenize'' \<in> set (split_on CHR '','' PROCESSORS)"
    by (simp add: PROCESSORS_def)
  have c: "''tokenize'' \<in> set (split_on CHR '','' (processors_args q))"
  proof (cases q)
    case None
    then show ?thesis using dflt by (simp add: processors_args_default)
  next
    case (Some l)
    show ?thesis
    proof (cases "l = []")
      case True
      with Some show ?thesis using dflt by (simp add: processors_args_default)
    next
      case False
      have "''tokenize'' \<in> set (if ''tokenize'' \<in> set l then l else l @ [''tokenize''])"
        by simp
      then have "''tokenize'' \<in> set (split_on CHR '','' (join '',''
                   (if ''tokenize'' \<in> set l then l else l @ [''tokenize''])))"
        by (rule tokenize_in_joined)
      moreover from False have "processors_args (Some l)
          = join '','' (if ''tokenize'' \<in> set l then l else l @ [''tokenize''])"
        by (rule processors_args_Some)
      ultimately show ?thesis unfolding Some by (simp only:)
    qed
  qed
  from a b c show ?thesis
    by (simp add: processors_args_default PROCESSORS_def)
qed

theorem processors_normalization_witness:
  "processors_args (Some [''pos'']) = ''pos,tokenize''
   \<and> processors_args (Some [''tokenize'', ''pos'']) = ''tokenize,pos''
   \<and> ''tokenize'' \<in> set (split_on CHR '','' (processors_args (Some [''pos''])))"
  using processors_normalization [of "[''pos'']" "Some [''pos'']"]
    processors_normalization [of "[''tokenize'', ''pos'']" None]
  by simp

text \<open>
  The option given with no stage names: nothing is appended to the empty list, the
  result is the default chain and not the single stage \<open>tokenize\<close>.
\<close>

theorem empty_processors_counterexample:
  "processors_args (Some []) = ''tokenize,mwt,pos,lemma,depparse''
   \<and> processors_args (Some []) \<noteq> join '','' ([] @ [''tokenize''])"
  by (simp add: processors_args_default PROCESSORS_def)

text \<open>
  C10. The batch size handed to the pipeline is 1000 when the option is omitted and
  also when it is 0; any other value, negative ones included, is passed through.
\<close>

theorem batch_size_fallback:
  "pos_batch_size_arg None = 1000
   \<and> pos_batch_size_arg (Some 0) = 1000
   \<and> (b \<noteq> 0 \<longrightarrow> pos_batch_size_arg (Some b) = b)
   \<and> (batch a = None \<or> batch a = Some 0 \<longrightarrow>
        main ev Pipeline a st
          = (case Pipeline (lang a) (processors_args (processors a)) 1000 of
               Inl e \<Rightarrow> Inl e
             | Inr nlp \<Rightarrow> tag_files ev (source a) (dest a) nlp st))"
  by (auto simp: pos_batch_size_arg_def truthy_int_def main_def prepare_library_def)

theorem batch_size_fallback_witness:
  "main (plain_env []) (\<lambda>lng procs size. Inl (Failure (str_int size)))
     \<lparr>source = ''in'', dest = ''out'', lang = ''sl'', processors = None, batch = Some 0\<rparr>
     empty_state
     = Inl (Failure ''1000'')
   \<and> pos_batch_size_arg (Some (- 3)) = - 3"
proof -
  have "str_int 1000 = ''1000''"
    by (simp add: str_int_def digits.simps digit_char_def)
  then show ?thesis
    using batch_size_fallback [of "- 3"
        "\<lparr>source = ''in'', dest = ''out'', lang = ''sl'', processors = None, batch = Some 0\<rparr>"
        "plain_env []" "\<lambda>lng procs size. Inl (Failure (str_int size))" empty_state]
    by simp
qed

section \<open>Properties of the batch converter\<close>


lemma logging_info_dropped: "logging_info msg st = st"
  by (simp add: logging_info_def log_record_def root_level_def)

lemma logging_error_recorded:
  "logging_error msg st = st\<lparr>parser_log := parser_log st @ [(ERROR, msg)]\<rparr>"
  by (simp add: logging_error_def log_record_def root_level_def)










































end
